theory Spec2Isabelle
  imports Complex_Main "HOL-Library.AList" "HOL-Library.Multiset" "HOL-Library.Product_Lexorder"
    "HOL-Library.Sublist"
begin

section \<open>Errors\<close>

text \<open>
  Every exception that \<^verbatim>\<open>extractos.py\<close> lets escape is a value of this type; a function
  that can raise returns \<open>error + 'a\<close>, with \<open>Inl\<close> for the exception. \<open>Unmodelled\<close> is no
  exception of the program: it marks an input whose treatment by pandas is left out.
\<close>

datatype error =
    OutOfBoundsDatetime
  | ConnectionError
  | HTTPError
  | JSONDecodeError
  | KeyError
  | TypeError
  | ValueError
  | ParserError
  | NotImplementedError
  | Unmodelled

section \<open>Calendar dates and the last business day\<close>

text \<open>
  A \<^verbatim>\<open>datetime.date\<close> is identified with its proleptic Gregorian ordinal
  (\<^verbatim>\<open>date.toordinal()\<close>): day 1 is 0001-01-01 and \<^verbatim>\<open>date.max\<close>, 9999-12-31, is day
  3652059. The functions below are those of Python's \<^verbatim>\<open>datetime\<close> module.
\<close>

definition date_min :: int where
  "date_min = 1"

definition date_max :: int where
  "date_max = 3652059"

definition is_leap :: "int \<Rightarrow> bool" where
  "is_leap y \<longleftrightarrow> y mod 4 = 0 \<and> (y mod 100 \<noteq> 0 \<or> y mod 400 = 0)"

definition days_before_year :: "int \<Rightarrow> int" where
  "days_before_year y = (let y1 = y - 1 in y1 * 365 + y1 div 4 - y1 div 100 + y1 div 400)"

definition days_before_month :: "int \<Rightarrow> int \<Rightarrow> int" where
  "days_before_month y m =
     [0, 31, 59, 90, 120, 151, 181, 212, 243, 273, 304, 334] ! nat (m - 1)
       + (if 2 < m \<and> is_leap y then 1 else 0)"

definition ymd2ord :: "int \<Rightarrow> int \<Rightarrow> int \<Rightarrow> int" where
  "ymd2ord y m d = days_before_year y + days_before_month y m + d"

text \<open>\<^verbatim>\<open>date.weekday()\<close>: Monday is 0, Sunday is 6.\<close>

definition weekday :: "int \<Rightarrow> int" where
  "weekday n = (n + 6) mod 7"

text \<open>
  What depends on the release of pandas is a parameter of the model: the first and the
  last day a \<^verbatim>\<open>Timestamp\<close> can hold, and what \<^verbatim>\<open>Timestamp.date()\<close> does with a timestamp
  that is no \<^verbatim>\<open>datetime.date\<close> (a day before 0001-01-01 or after 9999-12-31). Before
  pandas 2.0 a \<^verbatim>\<open>Timestamp\<close> counts nanoseconds and spans 1677-09-22 to 2262-04-11, so every
  timestamp is a date. From 2.0 on a \<^verbatim>\<open>Timestamp\<close> made from a date reaches far beyond the
  dates on both sides, and \<^verbatim>\<open>.date()\<close> of a timestamp outside them raises
  \<^verbatim>\<open>NotImplementedError\<close> from 2.1 on and returns some other date in 2.0.
\<close>

record pandas =
  ts_min :: int
  ts_max :: int
  date_outside :: "int \<Rightarrow> error + int"

text \<open>
  \<^verbatim>\<open>pd.Timestamp(hoy)\<close> is the midnight of the day \<open>hoy\<close>; a midnight timestamp is
  modelled by its day. A timestamp outside the range pandas can hold does not exist: the
  operation that would make it raises.
\<close>

definition Timestamp :: "pandas \<Rightarrow> int \<Rightarrow> error + int" where
  "Timestamp env d =
     (if ts_min env \<le> d \<and> d \<le> ts_max env then Inr d else Inl OutOfBoundsDatetime)"

text \<open>
  \<^verbatim>\<open>BusinessDay._apply\<close> of pandas, for an offset of \<open>n\<close> business days applied to a
  timestamp whose weekday is \<open>wday\<close>: whole weeks first, then the days left, skipping the
  weekend. \<^verbatim>\<open>//\<close> is floor division, as \<open>div\<close> on \<open>int\<close>.
\<close>

definition adjust_ndays :: "int \<Rightarrow> int \<Rightarrow> int \<Rightarrow> int" where
  "adjust_ndays n wday weeks =
     (let n1 = (if n \<le> 0 \<and> 4 < wday then n + 1 else n);
          n2 = n1 - 5 * weeks
      in if n2 = 0 \<and> 4 < wday then 4 - wday
         else if 4 < wday then (7 - wday) + (n2 - 1)
         else if wday + n2 \<le> 4 then n2
         else n2 + 2)"

definition BDay_apply :: "pandas \<Rightarrow> int \<Rightarrow> int \<Rightarrow> error + int" where
  "BDay_apply env n t =
     (let wday = weekday t;
          weeks = n div 5;
          days = adjust_ndays n wday weeks
      in Timestamp env (t + (7 * weeks + days)))"

text \<open>\<^verbatim>\<open>ts - BDay(n)\<close> is \<^verbatim>\<open>(-BDay(n))._apply(ts)\<close>, that is \<^verbatim>\<open>BDay(-n)\<close> applied.\<close>

definition Timestamp_sub_BDay :: "pandas \<Rightarrow> int \<Rightarrow> int \<Rightarrow> error + int" where
  "Timestamp_sub_BDay env t n = BDay_apply env (- n) t"

text \<open>
  \<^verbatim>\<open>Timestamp.date()\<close>: the day of the timestamp when that day is a \<^verbatim>\<open>datetime.date\<close>, and
  what the release does otherwise.
\<close>

definition Timestamp_date :: "pandas \<Rightarrow> int \<Rightarrow> error + int" where
  "Timestamp_date env t =
     (if date_min \<le> t \<and> t \<le> date_max then Inr t else date_outside env t)"

text \<open>
  \<^verbatim>\<open>def ultimo_dia_habil(hoy): return (pd.Timestamp(hoy) - BDay(1)).date()\<close>
\<close>

definition ultimo_dia_habil :: "pandas \<Rightarrow> int \<Rightarrow> error + int" where
  "ultimo_dia_habil env hoy =
     (case Timestamp env hoy of
        Inl e \<Rightarrow> Inl e
      | Inr ts \<Rightarrow>
          (case Timestamp_sub_BDay env ts 1 of
             Inl e \<Rightarrow> Inl e
           | Inr r \<Rightarrow> Timestamp_date env r))"

text \<open>
  Two releases. Before 2.0: nanoseconds, midnights from 1677-09-22 to 2262-04-11, all of
  them dates (so \<open>date_outside\<close> is never asked). From 2.1 on: the timestamp that results
  here counts at least microseconds in 64 bits, which reach more than a hundred million
  days either side of 1970-01-01 (day 719163), and \<^verbatim>\<open>.date()\<close> refuses what is no date.
\<close>

definition pandas_1 :: pandas where
  "pandas_1 =
     \<lparr>ts_min = ymd2ord 1677 9 22, ts_max = ymd2ord 2262 4 11,
      date_outside = (\<lambda>t. Inl OutOfBoundsDatetime)\<rparr>"

definition pandas_2_1 :: pandas where
  "pandas_2_1 =
     \<lparr>ts_min = 719163 - 106751991, ts_max = 719163 + 106751991,
      date_outside = (\<lambda>t. Inl NotImplementedError)\<rparr>"

text \<open>
  The specification's notion, for comparison with the code: the previous business day on
  a Monday-to-Friday calendar without holidays is three days back on a Monday, two days
  back on a Sunday and one day back otherwise.
\<close>

definition previous_business_day :: "int \<Rightarrow> int" where
  "previous_business_day d =
     (if weekday d = 0 then d - 3 else if weekday d = 6 then d - 2 else d - 1)"

section \<open>Python values\<close>

text \<open>
  The values the program handles: what \<^verbatim>\<open>resp.json()\<close> produces (\<^verbatim>\<open>None\<close>, booleans,
  numbers, strings, lists, and dictionaries as association lists in insertion order), and
  what pandas puts into a frame besides (\<open>PNaN\<close> for a missing cell, \<open>PTime t\<close> for a
  timestamp at position \<open>t\<close> of the time line, \<open>PNaT\<close> for a missing timestamp). A number
  is taken by its value, so that \<^verbatim>\<open>1 == 1.0\<close> as in Python.
\<close>

datatype pyval =
    PNone
  | PBool bool
  | PNum rat
  | PStr string
  | PList "pyval list"
  | PDict "(string \<times> pyval) list"
  | PNaN
  | PTime int
  | PNaT

type_synonym pydict = "(string \<times> pyval) list"

fun is_dict :: "pyval \<Rightarrow> bool" where
  "is_dict (PDict kvs) = True"
| "is_dict v = False"

text \<open>Python's truth value, as \<^verbatim>\<open>if not movs\<close> tests it.\<close>

fun truthy :: "pyval \<Rightarrow> bool" where
  "truthy PNone = False"
| "truthy (PBool b) = b"
| "truthy (PNum n) = (n \<noteq> 0)"
| "truthy (PStr s) = (s \<noteq> [])"
| "truthy (PList xs) = (xs \<noteq> [])"
| "truthy (PDict kvs) = (kvs \<noteq> [])"
| "truthy v = True"

text \<open>\<^verbatim>\<open>obj[key]\<close> with a string key: only a dictionary holding the key has a value.\<close>

fun getitem :: "pyval \<Rightarrow> string \<Rightarrow> error + pyval" where
  "getitem (PDict kvs) k = (case map_of kvs k of None \<Rightarrow> Inl KeyError | Some v \<Rightarrow> Inr v)"
| "getitem v k = Inl TypeError"

text \<open>\<^verbatim>\<open>str.zfill(width)\<close>: zeros on the left, after a leading sign.\<close>

definition zfill :: "nat \<Rightarrow> string \<Rightarrow> string" where
  "zfill width s =
     (if width \<le> length s then s
      else case s of
          [] \<Rightarrow> replicate width CHR ''0''
        | c # cs \<Rightarrow>
            if c = CHR ''+'' \<or> c = CHR ''-''
            then c # replicate (width - length s) CHR ''0'' @ cs
            else replicate (width - length s) CHR ''0'' @ s)"

section \<open>The two HTTP calls\<close>

text \<open>
  The environment: \<^verbatim>\<open>IB_CLIENT_ID\<close>, \<^verbatim>\<open>IB_CLIENT_SECRET\<close>, \<^verbatim>\<open>IB_SERVICE_URL\<close> and
  \<^verbatim>\<open>CUSTOMER_ID\<close>, read once at start.
\<close>

record config =
  client_id :: string
  client_secret :: string
  service_url :: string
  customer_id :: string

text \<open>
  An f-string: the concatenation of its parts when each is a string. The text Python
  would give to another value is not modelled; the parts are then kept as they are.
\<close>

fun str_parts :: "pyval list \<Rightarrow> string option" where
  "str_parts [] = Some []"
| "str_parts (PStr s # vs) = (case str_parts vs of None \<Rightarrow> None | Some t \<Rightarrow> Some (s @ t))"
| "str_parts (v # vs) = None"

definition fstring :: "pyval list \<Rightarrow> pyval" where
  "fstring parts = (case str_parts parts of None \<Rightarrow> PList parts | Some s \<Rightarrow> PStr s)"

record request =
  http_method :: string
  url :: string
  query :: "(string \<times> string) list"
  headers :: "(string \<times> pyval) list"
  form :: "(string \<times> string) list"

text \<open>
  A response: its status code and its body as \<^verbatim>\<open>resp.json()\<close> reads it, \<open>None\<close> when the
  body is not JSON.
\<close>

record response =
  status_code :: nat
  body :: "pyval option"

text \<open>
  The network is a state: the outcomes of the HTTP calls to come, in order (a response,
  or the exception \<^verbatim>\<open>requests\<close> raises when no response arrives), and the requests sent
  so far. A call takes the next outcome and records its request.
\<close>

record net =
  pending :: "(error + response) list"
  sent :: "request list"

definition http_call :: "request \<Rightarrow> net \<Rightarrow> (error + response) \<times> net" where
  "http_call req w =
     (case pending w of
        [] \<Rightarrow> (Inl ConnectionError, w\<lparr>sent := sent w @ [req]\<rparr>)
      | r # rs \<Rightarrow> (r, \<lparr>pending = rs, sent = sent w @ [req]\<rparr>))"

text \<open>\<^verbatim>\<open>Response.raise_for_status()\<close> raises for a 4xx or 5xx status, and for no other.\<close>

definition raise_for_status :: "response \<Rightarrow> error + unit" where
  "raise_for_status resp =
     (if 400 \<le> status_code resp \<and> status_code resp < 600 then Inl HTTPError else Inr ())"

definition response_json :: "response \<Rightarrow> error + pyval" where
  "response_json resp = (case body resp of None \<Rightarrow> Inl JSONDecodeError | Some v \<Rightarrow> Inr v)"

definition TOKEN_URL :: string where
  "TOKEN_URL = ''https://auth.interbanking.com.ar/cas/oidc/accessToken''"

definition STMT_URL :: "string \<Rightarrow> string" where
  "STMT_URL account_number =
     ''https://api-gw.interbanking.com.ar/api/prod/v1/accounts/'' @ account_number @ ''/statements''"

definition token_request :: "config \<Rightarrow> request" where
  "token_request cfg =
     \<lparr>http_method = ''POST'', url = TOKEN_URL,
      query = [(''scope'', ''info-financiera''), (''client_id'', client_id cfg),
               (''client_secret'', client_secret cfg)],
      headers = [(''service'', PStr (service_url cfg))],
      form = [(''grant_type'', ''client_credentials'')]\<rparr>"

definition obtener_token :: "config \<Rightarrow> net \<Rightarrow> (error + pyval) \<times> net" where
  "obtener_token cfg w =
     (case http_call (token_request cfg) w of
        (Inl e, w') \<Rightarrow> (Inl e, w')
      | (Inr resp, w') \<Rightarrow>
          (case raise_for_status resp of
             Inl e \<Rightarrow> (Inl e, w')
           | Inr _ \<Rightarrow>
               (case response_json resp of
                  Inl e \<Rightarrow> (Inl e, w')
                | Inr j \<Rightarrow> (getitem j ''access_token'', w'))))"

definition statement_request :: "config \<Rightarrow> pyval \<Rightarrow> string \<Rightarrow> string \<Rightarrow> string \<Rightarrow> request" where
  "statement_request cfg token account_number bank_number fecha =
     \<lparr>http_method = ''GET'', url = STMT_URL account_number,
      query = [(''account-type'', ''CC''), (''bank-number'', zfill 3 bank_number),
               (''currency'', ''ARS''), (''customer-id'', customer_id cfg),
               (''date-since'', fecha), (''date-until'', fecha)],
      headers = [(''Authorization'', fstring [PStr ''Bearer '', token]),
                 (''client_id'', PStr (client_id cfg))],
      form = []\<rparr>"

definition descargar_extractos ::
  "config \<Rightarrow> pyval \<Rightarrow> string \<Rightarrow> string \<Rightarrow> string \<Rightarrow> net \<Rightarrow> (error + pyval) \<times> net" where
  "descargar_extractos cfg token account_number bank_number fecha w =
     (case http_call (statement_request cfg token account_number bank_number fecha) w of
        (Inl e, w') \<Rightarrow> (Inl e, w')
      | (Inr resp, w') \<Rightarrow>
          (case raise_for_status resp of
             Inl e \<Rightarrow> (Inl e, w')
           | Inr _ \<Rightarrow>
               (case response_json resp of
                  Inl e \<Rightarrow> (Inl e, w')
                | Inr data \<Rightarrow>
                    (Inr (case data of
                            PDict kvs \<Rightarrow>
                              (case map_of kvs ''statements'' of
                                 None \<Rightarrow> PList []
                               | Some v \<Rightarrow> v)
                          | _ \<Rightarrow> data), w'))))"

section \<open>Frames\<close>

text \<open>
  A \<^verbatim>\<open>DataFrame\<close>: its column labels in order, and its rows in order, each with its index
  label and one cell per column.
\<close>

record dataframe =
  columns :: "string list"
  rows :: "(nat \<times> pyval list) list"

definition DataFrame_empty :: dataframe where
  "DataFrame_empty = \<lparr>columns = [], rows = []\<rparr>"

text \<open>\<^verbatim>\<open>df.empty\<close>: some axis has length 0.\<close>

definition df_empty :: "dataframe \<Rightarrow> bool" where
  "df_empty df \<longleftrightarrow> columns df = [] \<or> rows df = []"

subsection \<open>\<^verbatim>\<open>pd.json_normalize\<close>\<close>

text \<open>
  \<^verbatim>\<open>_normalise_json\<close>: a nested dictionary is flattened, the keys of a path joined by
  \<^verbatim>\<open>.\<close>; \<open>key_string\<close> is the path so far, \<open>normalized_dict\<close> the dictionary being filled
  (an assignment to a key it holds replaces the value in place).
\<close>

definition new_key :: "string \<Rightarrow> string \<Rightarrow> string" where
  "new_key key_string k = (if key_string = [] then k else key_string @ ''.'' @ k)"

fun normalise_json :: "pyval \<Rightarrow> string \<Rightarrow> pydict \<Rightarrow> pydict"
  and normalise_items :: "pydict \<Rightarrow> string \<Rightarrow> pydict \<Rightarrow> pydict" where
  "normalise_json (PDict kvs) key_string normalized_dict =
     normalise_items kvs key_string normalized_dict"
| "normalise_json v key_string normalized_dict = AList.update key_string v normalized_dict"
| "normalise_items [] key_string normalized_dict = normalized_dict"
| "normalise_items ((k, v) # kvs) key_string normalized_dict =
     normalise_items kvs key_string (normalise_json v (new_key key_string k) normalized_dict)"

text \<open>
  \<^verbatim>\<open>_normalise_json_ordered\<close>: the top-level entries that are not dictionaries first, in
  their order, then the flattened ones (\<^verbatim>\<open>{**top_dict_, **nested_dict_}\<close>).
\<close>

definition normalise_json_ordered :: "pydict \<Rightarrow> pydict" where
  "normalise_json_ordered d =
     (let top_dict = filter (\<lambda>(k, v). \<not> is_dict v) d;
          nested_dict = normalise_json (PDict (filter (\<lambda>(k, v). is_dict v) d)) [] []
      in fold (\<lambda>(k, v) acc. AList.update k v acc) nested_dict top_dict)"

text \<open>
  \<^verbatim>\<open>DataFrame(list of dicts)\<close>: the columns are the keys in the order of their first
  appearance, a key a record lacks gives \<^verbatim>\<open>NaN\<close>, and the index is \<open>0, 1, ...\<close>.
\<close>

definition union_keys :: "pydict list \<Rightarrow> string list" where
  "union_keys recs = rev (remdups (rev (concat (map (map fst) recs))))"

definition record_cells :: "string list \<Rightarrow> pydict \<Rightarrow> pyval list" where
  "record_cells cols r = map (\<lambda>c. case map_of r c of None \<Rightarrow> PNaN | Some v \<Rightarrow> v) cols"

definition DataFrame :: "pydict list \<Rightarrow> dataframe" where
  "DataFrame recs =
     \<lparr>columns = union_keys recs,
      rows = zip [0..<length recs] (map (record_cells (union_keys recs)) recs)\<rparr>"

definition json_normalize :: "pydict list \<Rightarrow> dataframe" where
  "json_normalize movs = DataFrame (map normalise_json_ordered movs)"

subsection \<open>Renaming\<close>

text \<open>
  \<^verbatim>\<open>c.lower()\<close> and \<^verbatim>\<open>"date" in ...\<close>. A string is its bytes; lowering touches the ASCII
  capitals only, which decides the test for \<^verbatim>\<open>date\<close> (no other character lowers to one of
  its four letters).
\<close>

definition lower_char :: "char \<Rightarrow> char" where
  "lower_char c =
     (case map_of (zip ''ABCDEFGHIJKLMNOPQRSTUVWXYZ'' ''abcdefghijklmnopqrstuvwxyz'') c of
        None \<Rightarrow> c
      | Some l \<Rightarrow> l)"

definition lower :: "string \<Rightarrow> string" where
  "lower s = map lower_char s"

fun contains :: "string \<Rightarrow> string \<Rightarrow> bool" where
  "contains sub [] = (sub = [])"
| "contains sub (c # cs) = (prefix sub (c # cs) \<or> contains sub cs)"

definition is_date_col :: "string \<Rightarrow> bool" where
  "is_date_col c = contains ''date'' (lower c)"

definition date_cols :: "dataframe \<Rightarrow> string list" where
  "date_cols df = filter is_date_col (columns df)"

text \<open>\<^verbatim>\<open>df.rename(columns=m)\<close>: every label \<open>m\<close> holds is replaced, the others stay.\<close>

definition rename :: "(string \<times> string) list \<Rightarrow> dataframe \<Rightarrow> dataframe" where
  "rename m df =
     df\<lparr>columns := map (\<lambda>c. case map_of m c of None \<Rightarrow> c | Some c' \<Rightarrow> c') (columns df)\<rparr>"

definition renombrar_fecha :: "dataframe \<Rightarrow> dataframe" where
  "renombrar_fecha df =
     (case date_cols df of [] \<Rightarrow> df | c # _ \<Rightarrow> rename [(c, ''Fecha'')] df)"

definition mapping :: "(string \<times> string) list" where
  "mapping =
     [(''description'', ''Concepto''), (''debitAmount'', ''Debito''),
      (''creditAmount'', ''Credito''), (''balance'', ''Saldo''), (''bankId'', ''Banco'')]"

definition renombrar_mapping :: "dataframe \<Rightarrow> dataframe" where
  "renombrar_mapping df = rename (filter (\<lambda>(k, v). k \<in> set (columns df)) mapping) df"

subsection \<open>Dates and sorting\<close>

text \<open>
  \<^verbatim>\<open>pd.to_datetime\<close> is a parameter \<open>conv\<close>: \<open>conv col v\<close> is what the conversion of the
  column \<open>col\<close> makes of its value \<open>v\<close>, a timestamp (\<open>Some t\<close>), \<^verbatim>\<open>NaT\<close> (\<open>None\<close>) or an
  exception. The column is converted value by value and the first exception is raised.
\<close>

fun traverse :: "('a \<Rightarrow> error + 'b) \<Rightarrow> 'a list \<Rightarrow> error + 'b list" where
  "traverse f [] = Inr []"
| "traverse f (x # xs) =
     (case f x of
        Inl e \<Rightarrow> Inl e
      | Inr y \<Rightarrow> (case traverse f xs of Inl e \<Rightarrow> Inl e | Inr ys \<Rightarrow> Inr (y # ys)))"

fun of_time :: "int option \<Rightarrow> pyval" where
  "of_time None = PNaT"
| "of_time (Some t) = PTime t"

definition to_datetime ::
  "(pyval list \<Rightarrow> pyval \<Rightarrow> error + int option) \<Rightarrow> pyval list \<Rightarrow> error + pyval list" where
  "to_datetime conv col =
     traverse (\<lambda>v. case conv col v of Inl e \<Rightarrow> Inl e | Inr t \<Rightarrow> Inr (of_time t)) col"

definition first_index :: "'a list \<Rightarrow> 'a \<Rightarrow> nat" where
  "first_index xs x = length (takeWhile (\<lambda>y. y \<noteq> x) xs)"

definition get_column :: "nat \<Rightarrow> dataframe \<Rightarrow> pyval list" where
  "get_column i df = map (\<lambda>r. snd r ! i) (rows df)"

definition set_column :: "nat \<Rightarrow> pyval list \<Rightarrow> dataframe \<Rightarrow> dataframe" where
  "set_column i col df =
     df\<lparr>rows := map (\<lambda>(r, v). (fst r, (snd r)[i := v])) (zip (rows df) col)\<rparr>"

text \<open>
  The order of \<^verbatim>\<open>sort_values\<close> on a timestamp column: ascending, \<^verbatim>\<open>NaT\<close> last.
\<close>

fun fecha_key :: "pyval \<Rightarrow> nat \<times> int" where
  "fecha_key (PTime t) = (0, t)"
| "fecha_key v = (1, 0)"

text \<open>
  \<^verbatim>\<open>df.sort_values("Fecha")\<close> sorts with \<^verbatim>\<open>kind="quicksort"\<close>, which is not stable: the
  order it gives to rows of equal date is not fixed. The sort is therefore a parameter
  \<open>srt\<close> (\<open>srt i rs\<close> sorts the rows \<open>rs\<close> by their cell \<open>i\<close>), and \<open>sorts srt\<close> says what
  every sort does: it permutes the rows and leaves them in order.
\<close>

definition sort_values ::
  "(nat \<Rightarrow> (nat \<times> pyval list) list \<Rightarrow> (nat \<times> pyval list) list) \<Rightarrow> nat \<Rightarrow> dataframe \<Rightarrow> dataframe" where
  "sort_values srt i df = df\<lparr>rows := srt i (rows df)\<rparr>"

definition sorts :: "(nat \<Rightarrow> (nat \<times> pyval list) list \<Rightarrow> (nat \<times> pyval list) list) \<Rightarrow> bool" where
  "sorts srt \<longleftrightarrow>
     (\<forall>i rs. mset (srt i rs) = mset rs \<and> sorted (map (\<lambda>r. fecha_key (snd r ! i)) (srt i rs)))"

text \<open>
  Lines 80 to 82. \<^verbatim>\<open>df["Fecha"]\<close> is a frame, not a column, when two columns are labelled
  \<^verbatim>\<open>Fecha\<close>, and \<^verbatim>\<open>pd.to_datetime\<close> refuses it (\<^verbatim>\<open>cannot assemble with duplicate keys\<close>).
\<close>

definition convertir_fecha ::
  "(pyval list \<Rightarrow> pyval \<Rightarrow> error + int option) \<Rightarrow>
   (nat \<Rightarrow> (nat \<times> pyval list) list \<Rightarrow> (nat \<times> pyval list) list) \<Rightarrow> dataframe \<Rightarrow> error + dataframe" where
  "convertir_fecha conv srt df =
     (if ''Fecha'' \<in> set (columns df) then
        (if 1 < count_list (columns df) ''Fecha'' then Inl ValueError
         else
           (let i = first_index (columns df) ''Fecha'' in
            case to_datetime conv (get_column i df) of
              Inl e \<Rightarrow> Inl e
            | Inr col \<Rightarrow> Inr (sort_values srt i (set_column i col df))))
      else Inr df)"

subsection \<open>\<^verbatim>\<open>drop_duplicates\<close> and \<^verbatim>\<open>reset_index\<close>\<close>

text \<open>
  Two rows are duplicates when they agree on every column whose label is in \<open>subs\<close>
  (the argument \<^verbatim>\<open>subset\<close>);
  missing values (\<^verbatim>\<open>None\<close>, \<^verbatim>\<open>NaN\<close>, \<^verbatim>\<open>NaT\<close>) agree with each other. The first of the
  duplicates is kept. The values are hashed, so a list or a dictionary in such a column
  raises \<^verbatim>\<open>TypeError\<close>; a label of \<open>subs\<close> that is no column raises \<^verbatim>\<open>KeyError\<close>; and
  with no column to compare, \<^verbatim>\<open>DataFrame.duplicated\<close> fails to unpack its empty list of
  factorized columns (\<^verbatim>\<open>ValueError\<close>), unless the frame is empty, which is returned as
  it is before anything else is looked at.
\<close>

definition is_null :: "pyval \<Rightarrow> bool" where
  "is_null v \<longleftrightarrow> v = PNone \<or> v = PNaN \<or> v = PNaT"

fun unhashable :: "pyval \<Rightarrow> bool" where
  "unhashable (PList xs) = True"
| "unhashable (PDict kvs) = True"
| "unhashable v = False"

definition subset_indices :: "string list \<Rightarrow> dataframe \<Rightarrow> nat list" where
  "subset_indices subs df =
     filter (\<lambda>i. columns df ! i \<in> set subs) [0..<length (columns df)]"

definition row_key :: "nat list \<Rightarrow> pyval list \<Rightarrow> pyval list" where
  "row_key idxs cells = map (\<lambda>i. if is_null (cells ! i) then PNaN else cells ! i) idxs"

fun keep_first :: "('r \<Rightarrow> 'k) \<Rightarrow> 'k list \<Rightarrow> 'r list \<Rightarrow> 'r list" where
  "keep_first key seen [] = []"
| "keep_first key seen (r # rs) =
     (if key r \<in> set seen then keep_first key seen rs
      else r # keep_first key (key r # seen) rs)"

definition drop_duplicates :: "string list \<Rightarrow> dataframe \<Rightarrow> error + dataframe" where
  "drop_duplicates subs df =
     (if df_empty df then Inr df
      else if \<not> set subs \<subseteq> set (columns df) then Inl KeyError
      else
        (let idxs = subset_indices subs df in
         if idxs = [] then Inl ValueError
         else if \<exists>r \<in> set (rows df). \<exists>i \<in> set idxs. unhashable (snd r ! i) then Inl TypeError
         else Inr (df\<lparr>rows := keep_first (\<lambda>r. row_key idxs (snd r)) [] (rows df)\<rparr>)))"

definition reset_index :: "dataframe \<Rightarrow> dataframe" where
  "reset_index df = df\<lparr>rows := zip [0..<length (rows df)] (map snd (rows df))\<rparr>"

subsection \<open>The normalizer\<close>

definition key_cols :: "dataframe \<Rightarrow> string list" where
  "key_cols df =
     filter (\<lambda>c. c \<in> set (columns df)) [''Fecha'', ''Concepto'', ''Debito'', ''Credito'', ''Saldo'']"

text \<open>Lines 68 to 79: flattening and the two renamings, which cannot fail.\<close>

definition renombrar :: "pydict list \<Rightarrow> dataframe" where
  "renombrar movs = renombrar_mapping (renombrar_fecha (json_normalize movs))"

text \<open>Lines 68 to 82: the frame that \<^verbatim>\<open>drop_duplicates\<close> receives.\<close>

definition preparar ::
  "(pyval list \<Rightarrow> pyval \<Rightarrow> error + int option) \<Rightarrow>
   (nat \<Rightarrow> (nat \<times> pyval list) list \<Rightarrow> (nat \<times> pyval list) list) \<Rightarrow> pydict list \<Rightarrow> error + dataframe" where
  "preparar conv srt movs = convertir_fecha conv srt (renombrar movs)"

definition estandarizar ::
  "(pyval list \<Rightarrow> pyval \<Rightarrow> error + int option) \<Rightarrow>
   (nat \<Rightarrow> (nat \<times> pyval list) list \<Rightarrow> (nat \<times> pyval list) list) \<Rightarrow> pydict list \<Rightarrow> error + dataframe" where
  "estandarizar conv srt movs =
     (if movs = [] then Inr DataFrame_empty
      else
        (case preparar conv srt movs of
           Inl e \<Rightarrow> Inl e
         | Inr df \<Rightarrow>
             (case drop_duplicates (key_cols df) df of
                Inl e \<Rightarrow> Inl e
              | Inr df' \<Rightarrow> Inr (reset_index df'))))"

text \<open>
  The specification's re-flattening of a frame into a record list, for the idempotence it
  states: each row becomes the dictionary of its cells by column label
  (\<^verbatim>\<open>df.to_dict("records")\<close>; of two columns with one label the later value stays).
\<close>

definition to_records :: "dataframe \<Rightarrow> pydict list" where
  "to_records df =
     map (\<lambda>r. fold (\<lambda>(c, v) d. AList.update c v d) (zip (columns df) (snd r)) []) (rows df)"

text \<open>
  What the idempotence needs of \<^verbatim>\<open>pd.to_datetime\<close>: a column that holds timestamps and
  \<^verbatim>\<open>NaT\<close> only is returned as it is.
\<close>

definition keeps_times :: "(pyval list \<Rightarrow> pyval \<Rightarrow> error + int option) \<Rightarrow> bool" where
  "keeps_times conv \<longleftrightarrow>
     (\<forall>col t. (\<forall>v\<in>set col. \<exists>u. v = of_time u) \<longrightarrow> conv col (of_time t) = Inr t)"

section \<open>The run\<close>

text \<open>
  Lines 104 to 127 of \<^verbatim>\<open>main\<close>: one token, then for each account of \<^verbatim>\<open>bancos.xlsx\<close>, in
  order, one download and its normalization; nothing catches an exception. The files
  written are the result: the frames exported and the entities without movements.
  \<open>fecha\<close> is the text of line 97.
\<close>

record cuenta =
  bank_number :: string
  account_number :: string
  entidad :: "string option"

record salida =
  movimientos :: "(string \<times> dataframe) list"
  sin_mov :: "string list"

text \<open>\<^verbatim>\<open>b.get("Entidad", b.bank_number)\<close>\<close>

definition entidad_de :: "cuenta \<Rightarrow> string" where
  "entidad_de b = (case entidad b of None \<Rightarrow> bank_number b | Some e \<Rightarrow> e)"

text \<open>
  \<^verbatim>\<open>estandarizar\<close> on what \<^verbatim>\<open>descargar_extractos\<close> returned, which need not be a list of
  dictionaries: a falsy value gives the empty frame, \<^verbatim>\<open>json_normalize\<close> takes a
  dictionary for a single record and refuses a scalar. A list with an element that is no
  dictionary is left out of the model.
\<close>

fun records_of :: "pyval list \<Rightarrow> pydict list option" where
  "records_of [] = Some []"
| "records_of (PDict kvs # vs) =
     (case records_of vs of None \<Rightarrow> None | Some rs \<Rightarrow> Some (kvs # rs))"
| "records_of (v # vs) = None"

definition estandarizar_movs ::
  "(pyval list \<Rightarrow> pyval \<Rightarrow> error + int option) \<Rightarrow>
   (nat \<Rightarrow> (nat \<times> pyval list) list \<Rightarrow> (nat \<times> pyval list) list) \<Rightarrow> pyval \<Rightarrow> error + dataframe" where
  "estandarizar_movs conv srt movs =
     (if \<not> truthy movs then Inr DataFrame_empty
      else case movs of
          PList vs \<Rightarrow>
            (case records_of vs of None \<Rightarrow> Inl Unmodelled | Some rs \<Rightarrow> estandarizar conv srt rs)
        | PDict kvs \<Rightarrow> estandarizar conv srt [kvs]
        | _ \<Rightarrow> Inl NotImplementedError)"

fun procesar_bancos ::
  "(pyval list \<Rightarrow> pyval \<Rightarrow> error + int option) \<Rightarrow>
   (nat \<Rightarrow> (nat \<times> pyval list) list \<Rightarrow> (nat \<times> pyval list) list) \<Rightarrow>
   config \<Rightarrow> pyval \<Rightarrow> string \<Rightarrow> cuenta list \<Rightarrow> salida \<Rightarrow> net \<Rightarrow> (error + salida) \<times> net" where
  "procesar_bancos conv srt cfg token fecha [] out w = (Inr out, w)"
| "procesar_bancos conv srt cfg token fecha (b # bs) out w =
     (case descargar_extractos cfg token (account_number b) (bank_number b) fecha w of
        (Inl e, w') \<Rightarrow> (Inl e, w')
      | (Inr movs, w') \<Rightarrow>
          (case estandarizar_movs conv srt movs of
             Inl e \<Rightarrow> (Inl e, w')
           | Inr df \<Rightarrow>
               procesar_bancos conv srt cfg token fecha bs
                 (if df_empty df then out\<lparr>sin_mov := sin_mov out @ [entidad_de b]\<rparr>
                  else out\<lparr>movimientos := movimientos out @ [(entidad_de b, df)]\<rparr>) w'))"

definition main ::
  "(pyval list \<Rightarrow> pyval \<Rightarrow> error + int option) \<Rightarrow>
   (nat \<Rightarrow> (nat \<times> pyval list) list \<Rightarrow> (nat \<times> pyval list) list) \<Rightarrow>
   config \<Rightarrow> cuenta list \<Rightarrow> string \<Rightarrow> net \<Rightarrow> (error + salida) \<times> net" where
  "main conv srt cfg bancos fecha w =
     (case obtener_token cfg w of
        (Inl e, w') \<Rightarrow> (Inl e, w')
      | (Inr token, w') \<Rightarrow>
          procesar_bancos conv srt cfg token fecha bancos \<lparr>movimientos = [], sin_mov = []\<rparr> w')"

section \<open>Example values\<close>

text \<open>Concrete values for the examples that accompany the theorems below.\<close>

definition cfg0 :: config where
  "cfg0 = \<lparr>client_id = ''id'', client_secret = ''secret'',
           service_url = ''https://localhost/callback'', customer_id = ''42''\<rparr>"

text \<open>
  A stable sort, one of the sorts \<^verbatim>\<open>sort_values\<close> may be (and the one numpy's quicksort
  is on a short column).
\<close>

definition sort_stable :: "nat \<Rightarrow> (nat \<times> pyval list) list \<Rightarrow> (nat \<times> pyval list) list" where
  "sort_stable i rs = sort_key (\<lambda>r. fecha_key (snd r ! i)) rs"

text \<open>
  A fragment of \<^verbatim>\<open>pd.to_datetime\<close>: a timestamp stays, a missing value gives \<^verbatim>\<open>NaT\<close>, and
  a text \<^verbatim>\<open>YYYY-MM-DD\<close> that names a day of the years 1678 to 2261 gives the midnight of
  that day, in nanoseconds since 1970-01-01. Every other value is outside the fragment.
\<close>

definition digit_val :: "char \<Rightarrow> int option" where
  "digit_val c = map_of (zip ''0123456789'' [0, 1, 2, 3, 4, 5, 6, 7, 8, 9]) c"

fun number :: "int \<Rightarrow> string \<Rightarrow> int option" where
  "number acc [] = Some acc"
| "number acc (c # cs) =
     (case digit_val c of None \<Rightarrow> None | Some d \<Rightarrow> number (10 * acc + d) cs)"

definition days_in_month :: "int \<Rightarrow> int \<Rightarrow> int" where
  "days_in_month y m =
     (if m = 2 \<and> is_leap y then 29
      else [31, 28, 31, 30, 31, 30, 31, 31, 30, 31, 30, 31] ! nat (m - 1))"

definition iso_date :: "string \<Rightarrow> int option" where
  "iso_date s =
     (if length s = 10 \<and> s ! 4 = CHR ''-'' \<and> s ! 7 = CHR ''-'' then
        (case (number 0 (take 4 s), number 0 (take 2 (drop 5 s)), number 0 (drop 8 s)) of
           (Some y, Some m, Some d) \<Rightarrow>
             if 1678 \<le> y \<and> y \<le> 2261 \<and> 1 \<le> m \<and> m \<le> 12 \<and> 1 \<le> d \<and> d \<le> days_in_month y m
             then Some ((ymd2ord y m d - 719163) * 86400000000000)
             else None
         | _ \<Rightarrow> None)
      else None)"

fun conv_iso :: "pyval list \<Rightarrow> pyval \<Rightarrow> error + int option" where
  "conv_iso col (PTime t) = Inr (Some t)"
| "conv_iso col PNaT = Inr None"
| "conv_iso col PNaN = Inr None"
| "conv_iso col PNone = Inr None"
| "conv_iso col (PStr s) = (case iso_date s of None \<Rightarrow> Inl Unmodelled | Some t \<Rightarrow> Inr (Some t))"
| "conv_iso col v = Inl Unmodelled"

text \<open>
  Three raw records with two date-like fields each; the first and the third agree on
  description and value date.
\<close>

definition movs_dos_fechas :: "pydict list" where
  "movs_dos_fechas =
     [[(''description'', PStr ''Pago''), (''valueDate'', PStr ''2024-06-07''),
       (''bookingDate'', PStr ''2024-06-06'')],
      [(''description'', PStr ''Cobro''), (''valueDate'', PStr ''2024-06-05''),
       (''bookingDate'', PStr ''2024-06-06'')],
      [(''description'', PStr ''Pago''), (''valueDate'', PStr ''2024-06-07''),
       (''bookingDate'', PStr ''2024-06-01'')]]"

text \<open>
  Records whose field names are all outside the known mapping and contain no \<^verbatim>\<open>date\<close>:
  twice the same \<^verbatim>\<open>Concepto\<close> with different notes, and two different ones.
\<close>

definition movs_notas :: "pydict list" where
  "movs_notas =
     [[(''Concepto'', PStr ''Pago''), (''nota'', PNum 1)],
      [(''Concepto'', PStr ''Pago''), (''nota'', PNum 2)]]"

definition movs_notas_distintas :: "pydict list" where
  "movs_notas_distintas =
     [[(''Concepto'', PStr ''Pago''), (''nota'', PNum 1)],
      [(''Concepto'', PStr ''Cobro''), (''nota'', PNum 2)]]"

section \<open>Properties of the business-day calculator\<close>

lemma weekday_range: "0 \<le> weekday d \<and> weekday d \<le> 6"
  by (simp add: weekday_def)

lemma weekday_minus: "weekday (d - k) = (weekday d - k) mod 7"
  by (simp add: weekday_def mod_diff_left_eq algebra_simps)

lemma weekday_plus: "weekday (d + k) = (weekday d + k) mod 7"
  using weekday_minus [of d "- k"] by simp

lemma adjust_ndays_weekend: "4 < w \<Longrightarrow> adjust_ndays (- 1) w (- 1) = 11 - w"
  by (simp add: adjust_ndays_def)

lemma adjust_ndays_monday: "adjust_ndays (- 1) 0 (- 1) = 4"
  by (simp add: adjust_ndays_def)

lemma adjust_ndays_midweek: "0 < w \<Longrightarrow> w \<le> 4 \<Longrightarrow> adjust_ndays (- 1) w (- 1) = 6"
  by (simp add: adjust_ndays_def)

lemma BDay_back: "7 * (- 1) + adjust_ndays (- 1) (weekday d) (- 1) = previous_business_day d - d"
proof -
  consider "weekday d = 0" | "0 < weekday d \<and> weekday d \<le> 4" | "weekday d = 5" | "weekday d = 6"
    using weekday_range [of d] by linarith
  then show ?thesis
  proof cases
    case 1
    then show ?thesis by (simp add: adjust_ndays_monday previous_business_day_def)
  next
    case 2
    then show ?thesis by (simp add: adjust_ndays_midweek previous_business_day_def)
  next
    case 3
    then show ?thesis by (simp add: adjust_ndays_weekend previous_business_day_def)
  next
    case 4
    then show ?thesis by (simp add: adjust_ndays_weekend previous_business_day_def)
  qed
qed

lemma previous_business_day_earlier: "previous_business_day d < d"
  unfolding previous_business_day_def by simp

lemma ultimo_dia_habil_eq:
  "ultimo_dia_habil env d =
     (if ts_min env \<le> d \<and> d \<le> ts_max env \<and> ts_min env \<le> previous_business_day d
      then Timestamp_date env (previous_business_day d) else Inl OutOfBoundsDatetime)"
proof -
  have m: "(- 1 :: int) div 5 = - 1" by simp
  have "d + (7 * (- 1) + adjust_ndays (- 1) (weekday d) (- 1)) = previous_business_day d"
    using BDay_back [of d] by simp
  then have "BDay_apply env (- 1) d = Timestamp env (previous_business_day d)"
    by (simp add: BDay_apply_def Let_def m)
  then show ?thesis
    using previous_business_day_earlier [of d]
    by (simp add: ultimo_dia_habil_def Timestamp_sub_BDay_def Timestamp_def)
qed

lemma ultimo_dia_habil_in_range:
  assumes "ts_min env \<le> previous_business_day d" and "d \<le> ts_max env"
    and "date_min \<le> previous_business_day d" and "d \<le> date_max"
  shows "ultimo_dia_habil env d = Inr (previous_business_day d)"
proof -
  have "previous_business_day d < d" by (rule previous_business_day_earlier)
  then show ?thesis
    using assms by (simp add: ultimo_dia_habil_eq Timestamp_date_def)
qed

lemmas date_defs = date_min_def date_max_def ymd2ord_def days_before_year_def
  days_before_month_def is_leap_def

lemma previous_business_day_friday:
  "weekday d = 0 \<or> weekday d = 5 \<or> weekday d = 6 \<Longrightarrow> weekday (previous_business_day d) = 4"
  by (auto simp: previous_business_day_def weekday_minus)

lemma previous_business_day_weekday: "weekday (previous_business_day d) \<le> 4"
proof -
  consider "weekday d = 0 \<or> weekday d = 5 \<or> weekday d = 6" | "0 < weekday d \<and> weekday d \<le> 4"
    using weekday_range [of d] by linarith
  then show ?thesis
  proof cases
    case 1
    then show ?thesis using previous_business_day_friday [of d] by simp
  next
    case 2
    then have "previous_business_day d = d - 1" by (simp add: previous_business_day_def)
    moreover have "(weekday d - 1) mod 7 = weekday d - 1" using 2 by simp
    ultimately show ?thesis using 2 by (simp add: weekday_minus)
  qed
qed

lemma previous_business_day_latest:
  assumes "r < d" and "weekday r \<le> 4"
  shows "r \<le> previous_business_day d"
proof (rule ccontr)
  assume "\<not> r \<le> previous_business_day d"
  then have gt: "previous_business_day d < r" by simp
  consider "weekday d = 0" | "weekday d = 6" | "weekday d \<noteq> 0 \<and> weekday d \<noteq> 6" by blast
  then show False
  proof cases
    case 1
    then have "r = d - 1 \<or> r = d - 2"
      using gt assms(1) by (simp add: previous_business_day_def) linarith
    then have "weekday r = 6 \<or> weekday r = 5"
      using 1 by (auto simp: weekday_minus)
    then show False using assms(2) by linarith
  next
    case 2
    then have "r = d - 1"
      using gt assms(1) by (simp add: previous_business_day_def)
    then have "weekday r = 5"
      using 2 by (simp add: weekday_minus)
    then show False using assms(2) by linarith
  next
    case 3
    then show False using gt assms(1) by (simp add: previous_business_day_def)
  qed
qed

text \<open>
  Claim C1, as amended. For every calendar date \<open>d\<close> whose previous business day is a
  calendar date too (every date but 0001-01-01), and which pandas can hold as a
  \<^verbatim>\<open>Timestamp\<close> together with that day, \<^verbatim>\<open>ultimo_dia_habil\<close> returns the previous business
  day of the Monday-to-Friday calendar: a day before \<open>d\<close> that is Monday to Friday, with
  no such day between it and \<open>d\<close>. On a Monday that is the Friday three days back, on a
  Saturday the Friday one day back, on a Sunday the Friday two days back, and from
  Tuesday to Friday the day before.
\<close>

theorem ultimo_dia_habil_previous_business_day:
  assumes "ts_min env \<le> previous_business_day d" and "d \<le> ts_max env"
    and "date_min \<le> previous_business_day d" and "d \<le> date_max"
  shows "ultimo_dia_habil env d = Inr (previous_business_day d)
    \<and> previous_business_day d < d
    \<and> weekday (previous_business_day d) \<le> 4
    \<and> (\<forall>r. r < d \<and> weekday r \<le> 4 \<longrightarrow> r \<le> previous_business_day d)
    \<and> (weekday d = 0 \<longrightarrow> previous_business_day d = d - 3 \<and> weekday (d - 3) = 4)
    \<and> (weekday d = 5 \<longrightarrow> previous_business_day d = d - 1 \<and> weekday (d - 1) = 4)
    \<and> (weekday d = 6 \<longrightarrow> previous_business_day d = d - 2 \<and> weekday (d - 2) = 4)
    \<and> (1 \<le> weekday d \<and> weekday d \<le> 4 \<longrightarrow> previous_business_day d = d - 1)"
proof -
  have ret: "ultimo_dia_habil env d = Inr (previous_business_day d)"
    using assms by (rule ultimo_dia_habil_in_range)
  have mon: "weekday d = 0 \<longrightarrow> previous_business_day d = d - 3 \<and> weekday (d - 3) = 4"
    by (simp add: previous_business_day_def weekday_minus)
  have sat: "weekday d = 5 \<longrightarrow> previous_business_day d = d - 1 \<and> weekday (d - 1) = 4"
    by (simp add: previous_business_day_def weekday_minus)
  have sun: "weekday d = 6 \<longrightarrow> previous_business_day d = d - 2 \<and> weekday (d - 2) = 4"
    by (simp add: previous_business_day_def weekday_minus)
  have mid: "1 \<le> weekday d \<and> weekday d \<le> 4 \<longrightarrow> previous_business_day d = d - 1"
    by (simp add: previous_business_day_def)
  have latest: "\<forall>r. r < d \<and> weekday r \<le> 4 \<longrightarrow> r \<le> previous_business_day d"
    using previous_business_day_latest by blast
  show ?thesis
    using ret mon sat sun mid latest previous_business_day_earlier [of d]
      previous_business_day_weekday [of d]
    by simp
qed

text \<open>
  The examples of the specification, on both releases: Monday 2024-06-10 gives Friday
  2024-06-07, Wednesday 2024-06-12 gives Tuesday 2024-06-11, Sunday 2024-06-09 gives Friday
  2024-06-07.
\<close>

theorem ultimo_dia_habil_examples:
  "ultimo_dia_habil pandas_2_1 (ymd2ord 2024 6 10) = Inr (ymd2ord 2024 6 7)
   \<and> ultimo_dia_habil pandas_1 (ymd2ord 2024 6 10) = Inr (ymd2ord 2024 6 7)
   \<and> weekday (ymd2ord 2024 6 10) = 0 \<and> weekday (ymd2ord 2024 6 7) = 4
   \<and> ultimo_dia_habil pandas_2_1 (ymd2ord 2024 6 12) = Inr (ymd2ord 2024 6 11)
   \<and> weekday (ymd2ord 2024 6 12) = 2
   \<and> ultimo_dia_habil pandas_2_1 (ymd2ord 2024 6 9) = Inr (ymd2ord 2024 6 7)
   \<and> weekday (ymd2ord 2024 6 9) = 6"
  using ultimo_dia_habil_previous_business_day [of pandas_2_1 739047]
    ultimo_dia_habil_previous_business_day [of pandas_1 739047]
    ultimo_dia_habil_previous_business_day [of pandas_2_1 739049]
    ultimo_dia_habil_previous_business_day [of pandas_2_1 739046]
  by (simp add: pandas_2_1_def pandas_1_def date_defs weekday_def previous_business_day_def)

text \<open>
  Claim C1 as stated fails at the first date: 0001-01-01 is a Monday, the Friday before it
  is no \<^verbatim>\<open>date\<close>, and the call raises instead of returning it, on either release.
\<close>

theorem ultimo_dia_habil_date_min:
  "weekday (ymd2ord 1 1 1) = 0 \<and> ymd2ord 1 1 1 = date_min
   \<and> ultimo_dia_habil pandas_2_1 (ymd2ord 1 1 1) = Inl NotImplementedError
   \<and> ultimo_dia_habil pandas_1 (ymd2ord 1 1 1) = Inl OutOfBoundsDatetime"
  by (simp add: ultimo_dia_habil_eq Timestamp_date_def pandas_2_1_def pandas_1_def date_defs
      weekday_def previous_business_day_def)

text \<open>
  Claim C10, as amended. For every input calendar date \<open>d\<close> whose previous business day
  is a calendar date too (every date but 0001-01-01), and which pandas can hold as a
  \<^verbatim>\<open>Timestamp\<close> together with that day, \<^verbatim>\<open>ultimo_dia_habil\<close> returns a date, and the date
  it returns is strictly earlier than \<open>d\<close> and is a Monday to Friday, never a Saturday or
  Sunday. If \<open>d\<close> is a Saturday and the Sunday after it can be held too, both give the
  same date, the Friday before them.
\<close>

theorem ultimo_dia_habil_result:
  assumes "ts_min env \<le> previous_business_day d" and "d \<le> ts_max env"
    and "date_min \<le> previous_business_day d" and "d \<le> date_max"
  shows "(\<exists>r. ultimo_dia_habil env d = Inr r)
    \<and> (\<forall>r. ultimo_dia_habil env d = Inr r \<longrightarrow>
          r < d \<and> 0 \<le> weekday r \<and> weekday r \<le> 4 \<and> weekday r \<noteq> 5 \<and> weekday r \<noteq> 6)
    \<and> (weekday d = 5 \<and> d + 1 \<le> ts_max env \<and> d + 1 \<le> date_max \<longrightarrow>
          ultimo_dia_habil env d = Inr (d - 1)
        \<and> ultimo_dia_habil env (d + 1) = Inr (d - 1)
        \<and> weekday (d - 1) = 4)"
proof -
  have ret: "ultimo_dia_habil env d = Inr (previous_business_day d)"
    using assms by (rule ultimo_dia_habil_in_range)
  have early: "previous_business_day d < d"
    by (rule previous_business_day_earlier)
  have wd: "0 \<le> weekday (previous_business_day d) \<and> weekday (previous_business_day d) \<le> 4"
    using weekday_range [of "previous_business_day d"] previous_business_day_weekday [of d]
    by simp
  have weekend: "ultimo_dia_habil env d = Inr (d - 1)
        \<and> ultimo_dia_habil env (d + 1) = Inr (d - 1) \<and> weekday (d - 1) = 4"
    if sat: "weekday d = 5" and hi: "d + 1 \<le> ts_max env" "d + 1 \<le> date_max"
  proof -
    have pd: "previous_business_day d = d - 1"
      using sat by (simp add: previous_business_day_def)
    have sun: "weekday (d + 1) = 6"
      using sat by (simp add: weekday_plus)
    then have ps: "previous_business_day (d + 1) = d - 1"
      by (simp add: previous_business_day_def)
    have "ultimo_dia_habil env (d + 1) = Inr (previous_business_day (d + 1))"
      using assms(1,3) hi pd ps by (intro ultimo_dia_habil_in_range) simp_all
    moreover have "weekday (d - 1) = 4"
      using sat by (simp add: weekday_minus)
    ultimately show ?thesis using ret pd ps by simp
  qed
  show ?thesis
    using ret early wd weekend by auto
qed

theorem ultimo_dia_habil_result_witness:
  "ultimo_dia_habil pandas_2_1 (ymd2ord 2024 6 8) = Inr (ymd2ord 2024 6 7)
   \<and> ultimo_dia_habil pandas_2_1 (ymd2ord 2024 6 8 + 1) = Inr (ymd2ord 2024 6 7)
   \<and> ymd2ord 2024 6 7 < ymd2ord 2024 6 8
   \<and> weekday (ymd2ord 2024 6 7) = 4 \<and> weekday (ymd2ord 2024 6 8) = 5"
  using ultimo_dia_habil_result [of pandas_2_1 739045]
  by (simp add: pandas_2_1_def date_defs weekday_def previous_business_day_def)

text \<open>
  Claim C10 as stated fails for dates that pandas cannot handle. Before pandas 2.0,
  Saturday 1600-01-01 and the Sunday after it give no Friday but an exception; and on
  every release the first date, 0001-01-01, gives no earlier date.
\<close>

theorem ultimo_dia_habil_no_result:
  "weekday (ymd2ord 1600 1 1) = 5
   \<and> ultimo_dia_habil pandas_1 (ymd2ord 1600 1 1) = Inl OutOfBoundsDatetime
   \<and> ultimo_dia_habil pandas_1 (ymd2ord 1600 1 1 + 1) = Inl OutOfBoundsDatetime
   \<and> ultimo_dia_habil pandas_2_1 date_min = Inl NotImplementedError"
  by (simp add: ultimo_dia_habil_eq Timestamp_date_def pandas_2_1_def pandas_1_def date_defs
      weekday_def previous_business_day_def)

section \<open>Properties of the HTTP calls\<close>

lemma http_call_next:
  "pending w = Inr resp # rest \<Longrightarrow>
   http_call req w = (Inr resp, \<lparr>pending = rest, sent = sent w @ [req]\<rparr>)"
  by (simp add: http_call_def)

lemma obtener_token_response:
  assumes "pending w = Inr resp # rest"
  shows "obtener_token cfg w =
    ((if 400 \<le> status_code resp \<and> status_code resp < 600 then Inl HTTPError
      else case body resp of None \<Rightarrow> Inl JSONDecodeError | Some j \<Rightarrow> getitem j ''access_token''),
     \<lparr>pending = rest, sent = sent w @ [token_request cfg]\<rparr>)"
  using assms
  by (simp add: obtener_token_def http_call_next raise_for_status_def response_json_def
      split: option.splits)

lemma descargar_extractos_response:
  assumes "pending w = Inr resp # rest"
  shows "descargar_extractos cfg token account bank fecha w =
    ((if 400 \<le> status_code resp \<and> status_code resp < 600 then Inl HTTPError
      else case body resp of
          None \<Rightarrow> Inl JSONDecodeError
        | Some data \<Rightarrow>
            Inr (case data of
                   PDict kvs \<Rightarrow> (case map_of kvs ''statements'' of None \<Rightarrow> PList [] | Some v \<Rightarrow> v)
                 | _ \<Rightarrow> data)),
     \<lparr>pending = rest, sent = sent w @ [statement_request cfg token account bank fecha]\<rparr>)"
  using assms
  by (simp add: descargar_extractos_def http_call_next raise_for_status_def response_json_def
      split: option.splits)

lemma getitem_returns:
  "(\<exists>v. getitem j k = Inr v) \<longleftrightarrow> (\<exists>kvs. j = PDict kvs \<and> k \<in> fst ` set kvs)"
proof (cases j)
  case (PDict kvs)
  have "(\<exists>v. map_of kvs k = Some v) \<longleftrightarrow> k \<in> fst ` set kvs"
    by (metis map_of_eq_None_iff not_None_eq)
  then show ?thesis
    using PDict by (auto split: option.splits)
qed simp_all

lemma main_aborts_on_token:
  "fst (obtener_token cfg w) = Inl e \<Longrightarrow>
   main conv srt cfg bancos fecha w = (Inl e, snd (obtener_token cfg w))"
  by (cases "obtener_token cfg w") (simp add: main_def)

lemma procesar_bancos_aborts:
  "fst (descargar_extractos cfg token (account_number b) (bank_number b) fecha w) = Inl e \<Longrightarrow>
   procesar_bancos conv srt cfg token fecha (b # bs) out w =
     (Inl e, snd (descargar_extractos cfg token (account_number b) (bank_number b) fecha w))"
  by (cases "descargar_extractos cfg token (account_number b) (bank_number b) fecha w") simp

text \<open>
  Claim C8. When the statement endpoint answers, \<^verbatim>\<open>raise_for_status\<close> does not raise and
  the body is JSON, \<^verbatim>\<open>descargar_extractos\<close> returns the value stored under \<^verbatim>\<open>statements\<close>
  if the body is a mapping that has the key, and the body itself if the body is a list.
  (A mapping without the key gives the empty list, and any other body that is no mapping
  is returned as it is.)
\<close>

theorem descargar_extractos_statements:
  assumes "pending w = Inr resp # rest"
    and "raise_for_status resp = Inr ()"
    and "response_json resp = Inr data"
  shows "(\<forall>kvs v. data = PDict kvs \<and> map_of kvs ''statements'' = Some v \<longrightarrow>
            fst (descargar_extractos cfg token account bank fecha w) = Inr v)
    \<and> (\<forall>vs. data = PList vs \<longrightarrow>
            fst (descargar_extractos cfg token account bank fecha w) = Inr (PList vs))
    \<and> (\<forall>kvs. data = PDict kvs \<and> map_of kvs ''statements'' = None \<longrightarrow>
            fst (descargar_extractos cfg token account bank fecha w) = Inr (PList []))
    \<and> (\<not> is_dict data \<longrightarrow>
            fst (descargar_extractos cfg token account bank fecha w) = Inr data)"
proof -
  have ok: "\<not> (400 \<le> status_code resp \<and> status_code resp < 600)"
    using assms(2) by (auto simp: raise_for_status_def split: if_splits)
  have js: "body resp = Some data"
    using assms(3) by (auto simp: response_json_def split: option.splits)
  have r: "fst (descargar_extractos cfg token account bank fecha w) =
      Inr (case data of
             PDict kvs \<Rightarrow> (case map_of kvs ''statements'' of None \<Rightarrow> PList [] | Some v \<Rightarrow> v)
           | _ \<Rightarrow> data)"
    using ok js by (simp add: descargar_extractos_response [OF assms(1)])
  show ?thesis
    unfolding r by (cases data) simp_all
qed

theorem descargar_extractos_statements_witness:
  "fst (descargar_extractos cfg0 (PStr ''abc'') ''123'' ''7'' ''2024-06-07''
     \<lparr>pending = [Inr \<lparr>status_code = 200,
         body = Some (PDict [(''statements'', PList [PDict [(''description'', PStr ''Pago'')]])])\<rparr>],
      sent = []\<rparr>) = Inr (PList [PDict [(''description'', PStr ''Pago'')]])
   \<and> fst (descargar_extractos cfg0 (PStr ''abc'') ''123'' ''7'' ''2024-06-07''
     \<lparr>pending = [Inr \<lparr>status_code = 200,
         body = Some (PList [PDict [(''description'', PStr ''Pago'')]])\<rparr>],
      sent = []\<rparr>) = Inr (PList [PDict [(''description'', PStr ''Pago'')]])"
  using descargar_extractos_statements [of
      "\<lparr>pending = [Inr \<lparr>status_code = 200,
         body = Some (PDict [(''statements'', PList [PDict [(''description'', PStr ''Pago'')]])])\<rparr>],
        sent = []\<rparr>"
      "\<lparr>status_code = 200,
         body = Some (PDict [(''statements'', PList [PDict [(''description'', PStr ''Pago'')]])])\<rparr>"
      "[]" "PDict [(''statements'', PList [PDict [(''description'', PStr ''Pago'')]])]"
      cfg0 "PStr ''abc''" "''123''" "''7''" "''2024-06-07''"]
    descargar_extractos_statements [of
      "\<lparr>pending = [Inr \<lparr>status_code = 200,
         body = Some (PList [PDict [(''description'', PStr ''Pago'')]])\<rparr>],
        sent = []\<rparr>"
      "\<lparr>status_code = 200,
         body = Some (PList [PDict [(''description'', PStr ''Pago'')]])\<rparr>"
      "[]" "PList [PDict [(''description'', PStr ''Pago'')]]"
      cfg0 "PStr ''abc''" "''123''" "''7''" "''2024-06-07''"]
  by (simp add: raise_for_status_def response_json_def)

text \<open>
  Claim C9, as amended. When the endpoint answers, \<^verbatim>\<open>obtener_token\<close> and
  \<^verbatim>\<open>descargar_extractos\<close> raise whenever the status is a 4xx or 5xx (what
  \<^verbatim>\<open>raise_for_status\<close> tests). \<^verbatim>\<open>obtener_token\<close> returns normally if and only if the status
  is none of these and the body is a JSON mapping that has \<^verbatim>\<open>access_token\<close>;
  \<^verbatim>\<open>descargar_extractos\<close> returns normally if and only if the status is none of these and
  the body is JSON. Either way one request is sent and one answer consumed: there is no
  retry. An exception of the token call ends \<^verbatim>\<open>main\<close> with that exception and nothing
  more is sent; an exception of a download ends the loop over the accounts there, the
  accounts after it getting no request.
\<close>

theorem http_calls_raise_or_return:
  assumes "pending w = Inr resp # rest"
  shows "(400 \<le> status_code resp \<and> status_code resp < 600 \<longrightarrow>
            fst (obtener_token cfg w) = Inl HTTPError
          \<and> fst (descargar_extractos cfg token account bank fecha w) = Inl HTTPError)
    \<and> ((\<exists>tok. fst (obtener_token cfg w) = Inr tok) \<longleftrightarrow>
          \<not> (400 \<le> status_code resp \<and> status_code resp < 600)
          \<and> (\<exists>kvs. body resp = Some (PDict kvs) \<and> ''access_token'' \<in> fst ` set kvs))
    \<and> ((\<exists>movs. fst (descargar_extractos cfg token account bank fecha w) = Inr movs) \<longleftrightarrow>
          \<not> (400 \<le> status_code resp \<and> status_code resp < 600) \<and> body resp \<noteq> None)
    \<and> snd (obtener_token cfg w) = \<lparr>pending = rest, sent = sent w @ [token_request cfg]\<rparr>
    \<and> snd (descargar_extractos cfg token account bank fecha w) =
          \<lparr>pending = rest, sent = sent w @ [statement_request cfg token account bank fecha]\<rparr>
    \<and> (\<forall>e. fst (obtener_token cfg w) = Inl e \<longrightarrow>
          main conv srt cfg bancos fecha w =
            (Inl e, \<lparr>pending = rest, sent = sent w @ [token_request cfg]\<rparr>))
    \<and> (\<forall>e. fst (descargar_extractos cfg token (account_number b) (bank_number b) fecha w) = Inl e \<longrightarrow>
          procesar_bancos conv srt cfg token fecha (b # bs) out w =
            (Inl e, \<lparr>pending = rest,
               sent = sent w @ [statement_request cfg token (account_number b) (bank_number b) fecha]\<rparr>))"
proof -
  note tok = obtener_token_response [OF assms, of cfg]
  note dl = descargar_extractos_response [OF assms, of cfg token account bank fecha]
  note dlb = descargar_extractos_response [OF assms, of cfg token "account_number b" "bank_number b" fecha]
  have a: "400 \<le> status_code resp \<and> status_code resp < 600 \<longrightarrow>
            fst (obtener_token cfg w) = Inl HTTPError
          \<and> fst (descargar_extractos cfg token account bank fecha w) = Inl HTTPError"
    by (simp add: tok dl)
  have b: "(\<exists>tok. fst (obtener_token cfg w) = Inr tok) \<longleftrightarrow>
          \<not> (400 \<le> status_code resp \<and> status_code resp < 600)
          \<and> (\<exists>kvs. body resp = Some (PDict kvs) \<and> ''access_token'' \<in> fst ` set kvs)"
  proof (cases "body resp")
    case None
    then show ?thesis by (simp add: tok)
  next
    case (Some j)
    then show ?thesis using getitem_returns [of j "''access_token''"] by (simp add: tok)
  qed
  have c: "(\<exists>movs. fst (descargar_extractos cfg token account bank fecha w) = Inr movs) \<longleftrightarrow>
          \<not> (400 \<le> status_code resp \<and> status_code resp < 600) \<and> body resp \<noteq> None"
    by (cases "body resp") (simp_all add: dl)
  have d: "snd (obtener_token cfg w) = \<lparr>pending = rest, sent = sent w @ [token_request cfg]\<rparr>"
    by (simp add: tok)
  have e: "snd (descargar_extractos cfg token account bank fecha w) =
          \<lparr>pending = rest, sent = sent w @ [statement_request cfg token account bank fecha]\<rparr>"
    by (simp add: dl)
  have f: "\<forall>e. fst (obtener_token cfg w) = Inl e \<longrightarrow>
          main conv srt cfg bancos fecha w =
            (Inl e, \<lparr>pending = rest, sent = sent w @ [token_request cfg]\<rparr>)"
    using main_aborts_on_token [of cfg w _ conv srt bancos fecha] d by simp
  have g: "\<forall>e. fst (descargar_extractos cfg token (account_number b) (bank_number b) fecha w) = Inl e \<longrightarrow>
          procesar_bancos conv srt cfg token fecha (b # bs) out w =
            (Inl e, \<lparr>pending = rest,
               sent = sent w @ [statement_request cfg token (account_number b) (bank_number b) fecha]\<rparr>)"
    using procesar_bancos_aborts [of cfg token b fecha w _ conv srt bs out] by (simp add: dlb)
  show ?thesis
    using a b c d e f g by blast
qed

theorem http_calls_raise_or_return_witness:
  "fst (obtener_token cfg0
      \<lparr>pending = [Inr \<lparr>status_code = 200, body = Some (PDict [(''access_token'', PStr ''abc'')])\<rparr>],
       sent = []\<rparr>) = Inr (PStr ''abc'')
   \<and> snd (obtener_token cfg0
      \<lparr>pending = [Inr \<lparr>status_code = 200, body = Some (PDict [(''access_token'', PStr ''abc'')])\<rparr>],
       sent = []\<rparr>) = \<lparr>pending = [], sent = [token_request cfg0]\<rparr>"
  using http_calls_raise_or_return [of
      "\<lparr>pending = [Inr \<lparr>status_code = 200, body = Some (PDict [(''access_token'', PStr ''abc'')])\<rparr>],
        sent = []\<rparr>"
      "\<lparr>status_code = 200, body = Some (PDict [(''access_token'', PStr ''abc'')])\<rparr>" "[]" cfg0]
  by (simp add: obtener_token_response)

text \<open>
  Claim C9 as stated fails: a response with the successful status 200 whose body is not
  JSON makes \<^verbatim>\<open>descargar_extractos\<close> raise.
\<close>

theorem http_success_status_but_raises:
  "status_code \<lparr>status_code = 200, body = None\<rparr> = 200
   \<and> fst (descargar_extractos cfg0 (PStr ''abc'') ''123'' ''7'' ''2024-06-07''
        \<lparr>pending = [Inr \<lparr>status_code = 200, body = None\<rparr>], sent = []\<rparr>) = Inl JSONDecodeError"
  by (simp add: descargar_extractos_response)

section \<open>Properties of the normalizer\<close>

lemmas eval_defs = estandarizar_def preparar_def renombrar_def renombrar_mapping_def
  renombrar_fecha_def json_normalize_def DataFrame_def normalise_json_ordered_def union_keys_def
  record_cells_def new_key_def date_cols_def is_date_col_def lower_def lower_char_def rename_def
  mapping_def convertir_fecha_def to_datetime_def first_index_def get_column_def set_column_def
  sort_values_def sort_stable_def drop_duplicates_def df_empty_def key_cols_def
  subset_indices_def row_key_def is_null_def reset_index_def DataFrame_empty_def iso_date_def
  digit_val_def days_in_month_def is_leap_def ymd2ord_def days_before_year_def
  days_before_month_def

lemma estandarizar_dos_fechas:
  "estandarizar conv_iso sort_stable movs_dos_fechas =
     Inr \<lparr>columns = [''Concepto'', ''Fecha'', ''bookingDate''],
          rows = [(0, [PStr ''Cobro'', PTime 1717545600000000000, PStr ''2024-06-06'']),
                  (1, [PStr ''Pago'', PTime 1717718400000000000, PStr ''2024-06-06''])]\<rparr>"
  by (simp add: movs_dos_fechas_def eval_defs upt_rec)

subsection \<open>Columns\<close>

lemma union_keys_distinct: "distinct (union_keys recs)"
  by (simp add: union_keys_def)

lemma json_normalize_distinct: "distinct (columns (json_normalize movs))"
  by (simp add: json_normalize_def DataFrame_def union_keys_distinct)

lemma json_normalize_rows_length: "length (rows (json_normalize movs)) = length movs"
  by (simp add: json_normalize_def DataFrame_def)

lemma renombrar_fecha_columns:
  "columns (renombrar_fecha df) =
     (case date_cols df of
        [] \<Rightarrow> columns df
      | c # _ \<Rightarrow> map (\<lambda>x. if x = c then ''Fecha'' else x) (columns df))"
  by (auto simp: renombrar_fecha_def rename_def split: list.splits)

lemma renombrar_fecha_rows: "rows (renombrar_fecha df) = rows df"
  by (simp add: renombrar_fecha_def rename_def split: list.splits)

lemma map_of_present:
  "c \<in> set cs \<Longrightarrow> map_of (filter (\<lambda>(k, v). k \<in> set cs) m) c = map_of m c"
  by (induction m) auto

lemma renombrar_mapping_columns:
  "columns (renombrar_mapping df) =
     map (\<lambda>c. case map_of mapping c of None \<Rightarrow> c | Some c' \<Rightarrow> c') (columns df)"
  by (simp add: renombrar_mapping_def rename_def map_of_present)

lemma renombrar_mapping_rows: "rows (renombrar_mapping df) = rows df"
  by (simp add: renombrar_mapping_def rename_def)

lemma renombrar_rows: "rows (renombrar movs) = rows (json_normalize movs)"
  by (simp add: renombrar_def renombrar_mapping_rows renombrar_fecha_rows)

lemma mapping_not_date: "map_of mapping c = Some c' \<Longrightarrow> \<not> is_date_col c \<and> c' \<noteq> ''Fecha''"
  by (auto simp: mapping_def is_date_col_def lower_def lower_char_def split: if_splits)

lemma mapping_Fecha: "map_of mapping ''Fecha'' = None"
  by (simp add: mapping_def)

lemma renombrar_columns:
  "columns (renombrar movs) =
     map (\<lambda>c. if filter is_date_col (columns (json_normalize movs)) \<noteq> []
                 \<and> c = hd (filter is_date_col (columns (json_normalize movs))) then ''Fecha''
              else case map_of mapping c of None \<Rightarrow> c | Some c' \<Rightarrow> c')
       (columns (json_normalize movs))"
proof (cases "filter is_date_col (columns (json_normalize movs))")
  case Nil
  then show ?thesis
    by (simp add: renombrar_def renombrar_mapping_columns renombrar_fecha_columns date_cols_def)
next
  case (Cons c cs)
  then show ?thesis
    by (auto simp: renombrar_def renombrar_mapping_columns renombrar_fecha_columns date_cols_def
        mapping_Fecha)
qed

lemma hd_filter_first:
  "i < length xs \<Longrightarrow> P (xs ! i) \<Longrightarrow> \<forall>j<i. \<not> P (xs ! j) \<Longrightarrow> hd (filter P xs) = xs ! i"
proof (induction xs arbitrary: i)
  case Nil
  then show ?case by simp
next
  case (Cons x xs)
  show ?case
  proof (cases i)
    case 0
    then show ?thesis using Cons.prems by simp
  next
    case (Suc k)
    have "\<not> P x" using Cons.prems(3) Suc by auto
    moreover have "\<not> P (xs ! j)" if "j < k" for j
      using Cons.prems(3) [rule_format, of "Suc j"] that Suc by simp
    then have "hd (filter P xs) = xs ! k"
      using Cons.IH [of k] Cons.prems(1,2) Suc by simp
    ultimately show ?thesis using Suc by simp
  qed
qed

lemma hd_filter_is_first:
  assumes "filter P xs \<noteq> []"
  shows "\<exists>i<length xs. xs ! i = hd (filter P xs) \<and> P (xs ! i) \<and> (\<forall>j<i. \<not> P (xs ! j))"
  using assms
proof (induction xs)
  case Nil
  then show ?case by simp
next
  case (Cons x xs)
  show ?case
  proof (cases "P x")
    case True
    then show ?thesis by (intro exI [of _ 0]) simp
  next
    case False
    then obtain i where i: "i < length xs" "xs ! i = hd (filter P xs)" "P (xs ! i)"
      "\<forall>j<i. \<not> P (xs ! j)"
      using Cons by auto
    have "\<forall>j<Suc i. \<not> P ((x # xs) ! j)"
      using False i(4) by (auto simp: less_Suc_eq_0_disj)
    then show ?thesis
      using False i by (intro exI [of _ "Suc i"]) simp
  qed
qed

subsection \<open>The stages keep the columns\<close>

lemma traverse_length: "traverse f xs = Inr ys \<Longrightarrow> length ys = length xs"
  by (induction xs arbitrary: ys) (auto split: sum.splits)

lemma convertir_fecha_columns:
  "convertir_fecha conv srt df = Inr F \<Longrightarrow> columns F = columns df"
  by (auto simp: convertir_fecha_def Let_def set_column_def sort_values_def
      split: if_splits sum.splits)

lemma drop_duplicates_columns:
  "drop_duplicates subs df = Inr G \<Longrightarrow> columns G = columns df"
  by (auto simp: drop_duplicates_def Let_def split: if_splits)

lemma reset_index_columns: "columns (reset_index df) = columns df"
  by (simp add: reset_index_def)

lemma estandarizar_stages:
  assumes "movs \<noteq> []" and "estandarizar conv srt movs = Inr df"
  obtains F G where "preparar conv srt movs = Inr F"
    and "drop_duplicates (key_cols F) F = Inr G" and "df = reset_index G"
  using assms by (auto simp: estandarizar_def split: sum.splits)

lemma estandarizar_columns:
  assumes "movs \<noteq> []" and "estandarizar conv srt movs = Inr df"
  shows "columns df = columns (renombrar movs)"
proof -
  obtain F G where "preparar conv srt movs = Inr F"
    and "drop_duplicates (key_cols F) F = Inr G" and "df = reset_index G"
    using assms by (rule estandarizar_stages)
  then show ?thesis
    by (simp add: reset_index_columns drop_duplicates_columns
        convertir_fecha_columns [of conv srt "renombrar movs" F] preparar_def)
qed

text \<open>
  Claim C7. For the empty list the normalizer returns the frame without columns and
  without rows, and raises nothing, whatever the date conversion and the sort are.
\<close>

theorem estandarizar_empty:
  "estandarizar conv srt [] = Inr \<lparr>columns = [], rows = []\<rparr>"
  by (simp add: estandarizar_def DataFrame_empty_def)

text \<open>
  Claim C6. With \<open>cols\<close> the columns of the flattened records, in column order, and \<open>out\<close>
  the columns after the two renamings (which are the columns of the frame the normalizer
  returns, when it returns one for a non-empty list): the first column whose name contains
  \<^verbatim>\<open>date\<close>, in any case of the letters, is named \<^verbatim>\<open>Fecha\<close>; a later column with such a name
  keeps its name; no other column becomes \<^verbatim>\<open>Fecha\<close>; and when no name contains \<^verbatim>\<open>date\<close>
  the columns named \<^verbatim>\<open>Fecha\<close> are those that were named so before.
\<close>

theorem estandarizar_renames_first_date_column:
  "(let cols = columns (json_normalize movs); out = columns (renombrar movs) in
      length out = length cols
    \<and> (\<forall>i<length cols. is_date_col (cols ! i) \<and> (\<forall>j<i. \<not> is_date_col (cols ! j))
          \<longrightarrow> out ! i = ''Fecha'')
    \<and> (\<forall>i<length cols. is_date_col (cols ! i) \<and> (\<exists>j<i. is_date_col (cols ! j))
          \<longrightarrow> out ! i = cols ! i)
    \<and> (\<forall>i<length cols. out ! i = ''Fecha''
          \<longrightarrow> cols ! i = ''Fecha'' \<or> is_date_col (cols ! i) \<and> (\<forall>j<i. \<not> is_date_col (cols ! j)))
    \<and> ((\<forall>c\<in>set cols. \<not> is_date_col c)
          \<longrightarrow> (\<forall>i<length cols. out ! i = ''Fecha'' \<longleftrightarrow> cols ! i = ''Fecha'')))
   \<and> (movs \<noteq> [] \<and> estandarizar conv srt movs = Inr df \<longrightarrow> columns df = columns (renombrar movs))"
proof -
  define cols where "cols = columns (json_normalize movs)"
  define out where "out = columns (renombrar movs)"
  have d: "distinct cols"
    by (simp add: cols_def json_normalize_distinct)
  have out: "out = map (\<lambda>c. if filter is_date_col cols \<noteq> [] \<and> c = hd (filter is_date_col cols)
        then ''Fecha'' else case map_of mapping c of None \<Rightarrow> c | Some c' \<Rightarrow> c') cols"
    unfolding out_def cols_def by (rule renombrar_columns)
  have len: "length out = length cols"
    by (simp add: out)
  have first: "out ! i = ''Fecha''"
    if "i < length cols" "is_date_col (cols ! i)" "\<forall>j<i. \<not> is_date_col (cols ! j)" for i
  proof -
    have "hd (filter is_date_col cols) = cols ! i"
      using that by (intro hd_filter_first) auto
    moreover have "filter is_date_col cols \<noteq> []"
      using that by (auto simp: filter_empty_conv)
    ultimately show ?thesis using that(1) by (simp add: out)
  qed
  have others: "out ! i = cols ! i"
    if "i < length cols" "is_date_col (cols ! i)" "j < i" "is_date_col (cols ! j)" for i j
  proof -
    have ne: "filter is_date_col cols \<noteq> []"
      using that by (auto simp: filter_empty_conv)
    then obtain k where k: "k < length cols" "cols ! k = hd (filter is_date_col cols)"
      "\<forall>j<k. \<not> is_date_col (cols ! j)"
      using hd_filter_is_first [of is_date_col cols] by blast
    have "k \<le> j" using k(3) that(4) by (meson not_le)
    then have "k \<noteq> i" using that(3) by simp
    then have "cols ! i \<noteq> hd (filter is_date_col cols)"
      using d k(1,2) that(1) by (metis nth_eq_iff_index_eq)
    moreover have "map_of mapping (cols ! i) = None"
      using mapping_not_date [of "cols ! i"] that(2) by (cases "map_of mapping (cols ! i)") auto
    ultimately show ?thesis using that(1) by (simp add: out)
  qed
  have only: "cols ! i = ''Fecha'' \<or> is_date_col (cols ! i) \<and> (\<forall>j<i. \<not> is_date_col (cols ! j))"
    if "i < length cols" "out ! i = ''Fecha''" for i
  proof (cases "filter is_date_col cols \<noteq> [] \<and> cols ! i = hd (filter is_date_col cols)")
    case True
    then obtain k where k: "k < length cols" "cols ! k = hd (filter is_date_col cols)"
      "is_date_col (cols ! k)" "\<forall>j<k. \<not> is_date_col (cols ! j)"
      using hd_filter_is_first [of is_date_col cols] by blast
    have "k = i"
      using d k(1,2) that(1) True by (metis nth_eq_iff_index_eq)
    then show ?thesis using k by simp
  next
    case False
    then have "(case map_of mapping (cols ! i) of None \<Rightarrow> cols ! i | Some c' \<Rightarrow> c') = ''Fecha''"
      using that by (auto simp: out)
    then show ?thesis
      using mapping_not_date [of "cols ! i"] by (cases "map_of mapping (cols ! i)") auto
  qed
  have none: "out ! i = ''Fecha'' \<longleftrightarrow> cols ! i = ''Fecha''"
    if "\<forall>c\<in>set cols. \<not> is_date_col c" "i < length cols" for i
  proof -
    have "filter is_date_col cols = []"
      using that(1) by (simp add: filter_empty_conv)
    then have "out ! i = (case map_of mapping (cols ! i) of None \<Rightarrow> cols ! i | Some c' \<Rightarrow> c')"
      using that(2) by (simp add: out)
    then show ?thesis
      using mapping_not_date [of "cols ! i"] mapping_Fecha
      by (cases "map_of mapping (cols ! i)") auto
  qed
  have cols_out: "movs \<noteq> [] \<and> estandarizar conv srt movs = Inr df \<longrightarrow> columns df = columns (renombrar movs)"
    using estandarizar_columns by blast
  have "length out = length cols
    \<and> (\<forall>i<length cols. is_date_col (cols ! i) \<and> (\<forall>j<i. \<not> is_date_col (cols ! j))
          \<longrightarrow> out ! i = ''Fecha'')
    \<and> (\<forall>i<length cols. is_date_col (cols ! i) \<and> (\<exists>j<i. is_date_col (cols ! j))
          \<longrightarrow> out ! i = cols ! i)
    \<and> (\<forall>i<length cols. out ! i = ''Fecha''
          \<longrightarrow> cols ! i = ''Fecha'' \<or> is_date_col (cols ! i) \<and> (\<forall>j<i. \<not> is_date_col (cols ! j)))
    \<and> ((\<forall>c\<in>set cols. \<not> is_date_col c)
          \<longrightarrow> (\<forall>i<length cols. out ! i = ''Fecha'' \<longleftrightarrow> cols ! i = ''Fecha''))"
    using len first others only none by blast
  then show ?thesis
    using cols_out unfolding Let_def cols_def out_def by blast
qed

theorem estandarizar_renames_first_date_column_witness:
  "columns (json_normalize movs_dos_fechas) = [''description'', ''valueDate'', ''bookingDate'']
   \<and> columns (renombrar movs_dos_fechas) = [''Concepto'', ''Fecha'', ''bookingDate'']
   \<and> is_date_col ''valueDate'' \<and> is_date_col ''bookingDate'' \<and> \<not> is_date_col ''description''
   \<and> (\<exists>df. estandarizar conv_iso sort_stable movs_dos_fechas = Inr df
         \<and> columns df = [''Concepto'', ''Fecha'', ''bookingDate''])"
  using estandarizar_renames_first_date_column [of movs_dos_fechas conv_iso sort_stable
      "\<lparr>columns = [''Concepto'', ''Fecha'', ''bookingDate''],
        rows = [(0, [PStr ''Cobro'', PTime 1717545600000000000, PStr ''2024-06-06'']),
                (1, [PStr ''Pago'', PTime 1717718400000000000, PStr ''2024-06-06''])]\<rparr>"]
    estandarizar_dos_fechas
  by (simp add: movs_dos_fechas_def renombrar_def renombrar_mapping_def renombrar_fecha_def
      json_normalize_def DataFrame_def normalise_json_ordered_def union_keys_def
      record_cells_def new_key_def date_cols_def is_date_col_def lower_def lower_char_def
      rename_def mapping_def)

subsection \<open>Keeping the first of the duplicates\<close>

lemma keep_first_set: "set (keep_first key seen rs) \<subseteq> set rs"
  by (induction rs arbitrary: seen) auto

lemma keep_first_subseq: "subseq (keep_first key seen rs) rs"
  by (induction rs arbitrary: seen) auto

lemma keep_first_keys: "key ` set (keep_first key seen rs) = key ` set rs - set seen"
  by (induction rs arbitrary: seen) auto

lemma keep_first_distinct: "distinct (map key (keep_first key seen rs))"
proof (induction rs arbitrary: seen)
  case Nil
  then show ?case by simp
next
  case (Cons r rs)
  have "key r \<notin> key ` set (keep_first key (key r # seen) rs)"
    by (simp add: keep_first_keys)
  then show ?case using Cons by simp
qed

lemma keep_first_find:
  "r \<in> set (keep_first key seen rs) \<Longrightarrow> find (\<lambda>x. key x = key r) rs = Some r"
proof (induction rs arbitrary: seen)
  case Nil
  then show ?case by simp
next
  case (Cons a rs)
  show ?case
  proof (cases "key a \<in> set seen")
    case True
    then have in_rest: "r \<in> set (keep_first key seen rs)"
      using Cons.prems by simp
    then have "key r \<in> key ` set rs - set seen"
      using keep_first_keys [of key seen rs] by blast
    then have "key a \<noteq> key r" using True by auto
    then show ?thesis using Cons.IH [OF in_rest] by simp
  next
    case False
    show ?thesis
    proof (cases "r = a")
      case True
      then show ?thesis by simp
    next
      case ne: False
      then have in_rest: "r \<in> set (keep_first key (key a # seen) rs)"
        using Cons.prems False by simp
      then have "key r \<in> key ` set rs - set (key a # seen)"
        using keep_first_keys [of key "key a # seen" rs] by blast
      then have "key a \<noteq> key r" by auto
      then show ?thesis using Cons.IH [OF in_rest] by simp
    qed
  qed
qed

lemma keep_first_sorted_wrt:
  "sorted_wrt P rs \<Longrightarrow> sorted_wrt P (keep_first key seen rs)"
proof (induction rs arbitrary: seen)
  case Nil
  then show ?case by simp
next
  case (Cons r rs)
  then show ?case
    using keep_first_set [of key "key r # seen" rs] by auto
qed

lemma keep_first_all:
  "distinct (map key rs) \<Longrightarrow> key ` set rs \<inter> set seen = {} \<Longrightarrow> keep_first key seen rs = rs"
  by (induction rs arbitrary: seen) auto

lemma exactly_one:
  "distinct (map f xs) \<Longrightarrow> y \<in> f ` set xs \<Longrightarrow> length (filter (\<lambda>x. f x = y) xs) = 1"
proof (induction xs)
  case Nil
  then show ?case by simp
next
  case (Cons x xs)
  show ?case
  proof (cases "f x = y")
    case True
    then have "\<forall>z\<in>set xs. f z \<noteq> y"
      using Cons.prems(1) by (metis distinct.simps(2) image_eqI list.simps(9) set_map)
    then have "filter (\<lambda>x. f x = y) xs = []"
      by (simp add: filter_empty_conv)
    then show ?thesis using True by simp
  next
    case False
    then show ?thesis using Cons by auto
  qed
qed

subsection \<open>The stages and the rows\<close>

lemma first_index_nth: "x \<in> set xs \<Longrightarrow> xs ! first_index xs x = x"
  unfolding first_index_def by (induction xs) auto

lemma first_index_less: "x \<in> set xs \<Longrightarrow> first_index xs x < length xs"
  unfolding first_index_def by (induction xs) auto

lemma sorts_set: "sorts srt \<Longrightarrow> set (srt i rs) = set rs"
  unfolding sorts_def by (metis set_mset_mset)

lemma sorts_length: "sorts srt \<Longrightarrow> length (srt i rs) = length rs"
  unfolding sorts_def by (metis size_mset)

lemma sorts_sorted: "sorts srt \<Longrightarrow> sorted (map (\<lambda>r. fecha_key (snd r ! i)) (srt i rs))"
  unfolding sorts_def by blast

lemma sorts_sort_stable: "sorts sort_stable"
  by (simp add: sorts_def sort_stable_def)

lemma convertir_fecha_no_Fecha:
  "''Fecha'' \<notin> set (columns df) \<Longrightarrow> convertir_fecha conv srt df = Inr df"
  by (simp add: convertir_fecha_def)

lemma convertir_fecha_Fecha:
  assumes "''Fecha'' \<in> set (columns df)" and "convertir_fecha conv srt df = Inr F"
  obtains col where "to_datetime conv (get_column (first_index (columns df) ''Fecha'') df) = Inr col"
    and "rows F = srt (first_index (columns df) ''Fecha'')
           (rows (set_column (first_index (columns df) ''Fecha'') col df))"
  using assms
  by (auto simp: convertir_fecha_def Let_def sort_values_def split: if_splits sum.splits)

lemma set_column_rows:
  "x \<in> set (rows (set_column i col df)) \<Longrightarrow>
   \<exists>r\<in>set (rows df). fst x = fst r \<and> (\<forall>j. j \<noteq> i \<longrightarrow> snd x ! j = snd r ! j)"
proof -
  assume "x \<in> set (rows (set_column i col df))"
  then obtain r v where rv: "(r, v) \<in> set (zip (rows df) col)" "x = (fst r, (snd r)[i := v])"
    by (auto simp: set_column_def)
  have "r \<in> set (rows df)" using rv(1) by (rule set_zip_leftD)
  moreover have "\<forall>j. j \<noteq> i \<longrightarrow> snd x ! j = snd r ! j" by (simp add: rv(2))
  ultimately show ?thesis using rv(2) by auto
qed

lemma convertir_fecha_cells:
  assumes "sorts srt" and "convertir_fecha conv srt df = Inr F" and "x \<in> set (rows F)"
  shows "\<exists>r\<in>set (rows df). \<forall>j<length (columns df). columns df ! j \<noteq> ''Fecha'' \<longrightarrow> snd x ! j = snd r ! j"
proof (cases "''Fecha'' \<in> set (columns df)")
  case False
  then have "F = df" using assms(2) by (simp add: convertir_fecha_no_Fecha)
  then show ?thesis using assms(3) by auto
next
  case True
  define i where "i = first_index (columns df) ''Fecha''"
  obtain col where "rows F = srt i (rows (set_column i col df))"
    using convertir_fecha_Fecha [OF True assms(2)] unfolding i_def by blast
  then have "x \<in> set (rows (set_column i col df))"
    using assms(1,3) by (simp add: sorts_set)
  then obtain r where r: "r \<in> set (rows df)" "\<forall>j. j \<noteq> i \<longrightarrow> snd x ! j = snd r ! j"
    using set_column_rows by blast
  have "columns df ! i = ''Fecha''"
    unfolding i_def using True by (rule first_index_nth)
  then have "\<forall>j<length (columns df). columns df ! j \<noteq> ''Fecha'' \<longrightarrow> snd x ! j = snd r ! j"
    using r(2) by metis
  then show ?thesis using r(1) by blast
qed

lemma convertir_fecha_length:
  assumes "sorts srt" and "convertir_fecha conv srt df = Inr F"
  shows "length (rows F) = length (rows df)"
proof (cases "''Fecha'' \<in> set (columns df)")
  case False
  then show ?thesis using assms(2) by (simp add: convertir_fecha_no_Fecha)
next
  case True
  define i where "i = first_index (columns df) ''Fecha''"
  obtain col where col: "to_datetime conv (get_column i df) = Inr col"
    and F: "rows F = srt i (rows (set_column i col df))"
    using convertir_fecha_Fecha [OF True assms(2)] unfolding i_def by blast
  have "length col = length (rows df)"
    using col traverse_length [of _ "get_column i df" col]
    by (simp add: to_datetime_def get_column_def)
  then show ?thesis
    using assms(1) by (simp add: F sorts_length set_column_def)
qed

lemma drop_duplicates_rows:
  assumes "drop_duplicates subs df = Inr G"
  shows "rows G = rows df \<and> df_empty df
       \<or> rows G = keep_first (\<lambda>r. row_key (subset_indices subs df) (snd r)) [] (rows df)"
  using assms by (auto simp: drop_duplicates_def Let_def split: if_splits)

lemma drop_duplicates_rows_columns:
  assumes "drop_duplicates subs df = Inr G" and "columns df \<noteq> []"
  shows "rows G = keep_first (\<lambda>r. row_key (subset_indices subs df) (snd r)) [] (rows df)"
  using assms by (auto simp: drop_duplicates_def df_empty_def Let_def split: if_splits)

lemma drop_duplicates_subseq:
  "drop_duplicates subs df = Inr G \<Longrightarrow> subseq (rows G) (rows df)"
  using drop_duplicates_rows [of subs df G] keep_first_subseq by fastforce

lemma drop_duplicates_sorted_wrt:
  "drop_duplicates subs df = Inr G \<Longrightarrow> sorted_wrt P (rows df) \<Longrightarrow> sorted_wrt P (rows G)"
  using drop_duplicates_rows [of subs df G] keep_first_sorted_wrt by fastforce

lemma reset_index_snd: "map snd (rows (reset_index G)) = map snd (rows G)"
  by (simp add: reset_index_def)

lemma reset_index_fst: "map fst (rows (reset_index G)) = [0..<length (rows (reset_index G))]"
  by (simp add: reset_index_def)

lemma reset_index_length: "length (rows (reset_index G)) = length (rows G)"
  by (simp add: reset_index_def)

end
